theory Spec2Isabelle
  imports Complex_Main
begin

section \<open>Python values, dictionaries and errors\<close>

text \<open>
  Python numbers (\<open>int\<close>, \<open>float\<close> and numpy's \<open>float64\<close>) are modelled as
  \<^typ>\<open>real\<close>: arithmetic is exact, IEEE rounding, infinities and NaN are outside the
  model. A dictionary is a map; a key whose presence the source tests (\<open>in\<close>,
  \<open>.get\<close>) is an \<open>option\<close> field. A raised exception is the \<open>Inl\<close> of a sum.
\<close>

datatype py_error =
  KeyError string
  | TypeError
  | IndexError
  | ValueError

text \<open>\<open>d.get(k, default)\<close> and \<open>d[k]\<close>.\<close>

definition dict_get :: "('k \<rightharpoonup> 'v) \<Rightarrow> 'k \<Rightarrow> 'v \<Rightarrow> 'v" where
  "dict_get d k dflt = (case d k of None \<Rightarrow> dflt | Some v \<Rightarrow> v)"

definition getitem :: "(string \<rightharpoonup> 'v) \<Rightarrow> string \<Rightarrow> py_error + 'v" where
  "getitem d k = (case d k of None \<Rightarrow> Inl (KeyError k) | Some v \<Rightarrow> Inr v)"

text \<open>
  A leaf of a feature dictionary is a number or Python's \<open>None\<close> (JSON \<open>null\<close>);
  a category is a dictionary of leaves; a feature dictionary maps category names to
  categories. The \<open>timestamp\<close> string that \<open>process_signature\<close> also stores at top
  level is read by no computation and is left out.
\<close>

type_synonym leaf = "real option"
type_synonym category = "string \<rightharpoonup> leaf"
type_synonym features_dict = "string \<rightharpoonup> category"

section \<open>numpy reductions\<close>

text \<open>
  \<open>np.mean\<close>, \<open>np.std\<close> (population standard deviation), \<open>np.max\<close>, \<open>np.min\<close>.
  The source calls them on non-empty lists only; on an empty list numpy returns NaN
  (or raises for max/min), which the model does not represent.
\<close>

definition np_mean :: "real list \<Rightarrow> real" where
  "np_mean vs = sum_list vs / real (length vs)"

definition np_std :: "real list \<Rightarrow> real" where
  "np_std vs = sqrt (np_mean (map (\<lambda>v. \<bar>v - np_mean vs\<bar>\<^sup>2) vs))"

definition np_max :: "real list \<Rightarrow> real" where
  "np_max vs = Max (set vs)"

definition np_min :: "real list \<Rightarrow> real" where
  "np_min vs = Min (set vs)"

section \<open>Signature data (collect_signature_data.py)\<close>

record point =
  p_x :: real
  p_y :: real
  p_time :: "real option"

record stroke =
  points :: "point list option"
  startTime :: "real option"
  endTime :: "real option"

record signature_data =
  strokes :: "stroke list option"

text \<open>\<open>stroke.get('points', [])\<close> and \<open>signature_data.get('strokes', [])\<close>.\<close>

definition get_points :: "stroke \<Rightarrow> point list" where
  "get_points s = (case points s of None \<Rightarrow> [] | Some ps \<Rightarrow> ps)"

definition get_strokes :: "signature_data \<Rightarrow> stroke list" where
  "get_strokes sd = (case strokes sd of None \<Rightarrow> [] | Some ss \<Rightarrow> ss)"

subsection \<open>Basic statistics\<close>

text \<open>
  \<open>sum(len(stroke['points']) for stroke in strokes)\<close>: the subscript raises
  \<open>KeyError\<close> on a stroke that has no \<open>points\<close> key.
\<close>

fun total_points_of :: "stroke list \<Rightarrow> py_error + nat" where
  "total_points_of [] = Inr 0"
| "total_points_of (s # ss) =
     (case points s of
        None \<Rightarrow> Inl (KeyError ''points'')
      | Some ps \<Rightarrow>
          (case total_points_of ss of
             Inl e \<Rightarrow> Inl e
           | Inr n \<Rightarrow> Inr (length ps + n)))"

definition calculate_basic_stats :: "stroke list \<Rightarrow> py_error + category" where
  "calculate_basic_stats ss =
     (case total_points_of ss of
        Inl e \<Rightarrow> Inl e
      | Inr total_points \<Rightarrow>
          (let total_duration =
                 (if ss \<noteq> [] \<and> startTime (hd ss) \<noteq> None \<and> endTime (last ss) \<noteq> None
                  then the (endTime (last ss)) - the (startTime (hd ss))
                  else 0)
           in Inr [''stroke_count'' \<mapsto> Some (real (length ss)),
                   ''total_points'' \<mapsto> Some (real total_points),
                   ''total_duration_ms'' \<mapsto> Some total_duration,
                   ''average_points_per_stroke'' \<mapsto>
                      Some (if ss \<noteq> [] then real total_points / real (length ss) else 0)]))"

subsection \<open>Velocity features\<close>

definition distance :: "point \<Rightarrow> point \<Rightarrow> real" where
  "distance p1 p2 = sqrt ((p_x p2 - p_x p1)\<^sup>2 + (p_y p2 - p_y p1)\<^sup>2)"

text \<open>
  \<open>time_diff = 1\<close>, overwritten by \<open>max(p2['time'] - p1['time'], 1)\<close> when both points
  carry a \<open>time\<close> key.
\<close>

definition time_diff :: "point \<Rightarrow> point \<Rightarrow> real" where
  "time_diff p1 p2 =
     (if p_time p1 \<noteq> None \<and> p_time p2 \<noteq> None
      then max (the (p_time p2) - the (p_time p1)) 1
      else 1)"

definition velocity :: "point \<Rightarrow> point \<Rightarrow> real" where
  "velocity p1 p2 = distance p1 p2 / time_diff p1 p2"

text \<open>The inner loop \<open>for i in range(1, len(points))\<close> over one stroke.\<close>

definition stroke_velocities :: "point list \<Rightarrow> real list" where
  "stroke_velocities ps = map (\<lambda>i. velocity (ps ! (i - 1)) (ps ! i)) [1..<length ps]"

definition velocities_of :: "stroke list \<Rightarrow> real list" where
  "velocities_of ss = concat (map (\<lambda>s. stroke_velocities (get_points s)) ss)"

definition calculate_velocity_features :: "stroke list \<Rightarrow> category" where
  "calculate_velocity_features ss =
     (let velocities = velocities_of ss
      in if velocities \<noteq> []
         then [''average_velocity'' \<mapsto> Some (np_mean velocities),
               ''max_velocity'' \<mapsto> Some (np_max velocities),
               ''min_velocity'' \<mapsto> Some (np_min velocities),
               ''velocity_std'' \<mapsto> Some (np_std velocities)]
         else [''average_velocity'' \<mapsto> Some 0,
               ''max_velocity'' \<mapsto> Some 0,
               ''min_velocity'' \<mapsto> Some 0,
               ''velocity_std'' \<mapsto> Some 0])"

subsection \<open>Shape features\<close>

definition calculate_shape_features :: "stroke list \<Rightarrow> category" where
  "calculate_shape_features ss =
     (let all_points = concat (map get_points ss)
      in if all_points = []
         then [''width'' \<mapsto> Some 0,
               ''height'' \<mapsto> Some 0,
               ''area'' \<mapsto> Some 0,
               ''aspect_ratio'' \<mapsto> Some 0]
         else
           (let min_x = np_min (map p_x all_points);
                min_y = np_min (map p_y all_points);
                max_x = np_max (map p_x all_points);
                max_y = np_max (map p_y all_points);
                width = max_x - min_x;
                height = max_y - min_y
            in [''width'' \<mapsto> Some width,
                ''height'' \<mapsto> Some height,
                ''area'' \<mapsto> Some (width * height),
                ''aspect_ratio'' \<mapsto> Some (if height > 0 then width / height else 0),
                ''center_x'' \<mapsto> Some ((min_x + max_x) / 2),
                ''center_y'' \<mapsto> Some ((min_y + max_y) / 2)]))"

subsection \<open>Stroke features\<close>

text \<open>The accumulating loop \<open>length += np.sqrt(...)\<close> over one stroke.\<close>

definition stroke_length :: "point list \<Rightarrow> real" where
  "stroke_length ps =
     fold (\<lambda>i len. len + distance (ps ! (i - 1)) (ps ! i)) [1..<length ps] 0"

definition stroke_durations_of :: "stroke list \<Rightarrow> real list" where
  "stroke_durations_of ss =
     map (\<lambda>s. the (endTime s) - the (startTime s))
         (filter (\<lambda>s. startTime s \<noteq> None \<and> endTime s \<noteq> None) ss)"

definition calculate_stroke_features :: "stroke list \<Rightarrow> category" where
  "calculate_stroke_features ss =
     (let stroke_lengths = map (\<lambda>s. stroke_length (get_points s)) ss;
          stroke_durations = stroke_durations_of ss;
          features =
            [''average_stroke_length'' \<mapsto>
               Some (if stroke_lengths \<noteq> [] then np_mean stroke_lengths else 0),
             ''total_length'' \<mapsto> Some (sum_list stroke_lengths),
             ''length_variation'' \<mapsto>
               Some (if stroke_lengths \<noteq> [] then np_std stroke_lengths else 0)]
      in if stroke_durations \<noteq> []
         then features(''average_stroke_duration'' \<mapsto> Some (np_mean stroke_durations),
                       ''duration_variation'' \<mapsto> Some (np_std stroke_durations))
         else features)"

subsection \<open>Extraction\<close>

definition process_signature :: "signature_data \<Rightarrow> py_error + features_dict" where
  "process_signature sd =
     (let ss = get_strokes sd
      in case calculate_basic_stats ss of
           Inl e \<Rightarrow> Inl e
         | Inr basic \<Rightarrow>
             Inr [''basic_stats'' \<mapsto> basic,
                  ''velocity_features'' \<mapsto> calculate_velocity_features ss,
                  ''shape_features'' \<mapsto> calculate_shape_features ss,
                  ''stroke_features'' \<mapsto> calculate_stroke_features ss])"

section \<open>Flattening (verify_signature.py, train_model_sklearn.py)\<close>

text \<open>\<open>0 if x is None else x\<close>.\<close>

definition none_to_zero :: "leaf \<Rightarrow> real" where
  "none_to_zero v = (case v of None \<Rightarrow> 0 | Some r \<Rightarrow> r)"

text \<open>\<open>SignatureVerifier._flatten_features\<close>: four \<open>extend\<close> calls, then the \<open>None\<close> pass.\<close>

definition flatten_features :: "features_dict \<Rightarrow> real list" where
  "flatten_features features_dict =
     (let flat0 = [];
          basic = dict_get features_dict ''basic_stats'' Map.empty;
          flat1 = flat0 @
            [dict_get basic ''stroke_count'' (Some 0),
             dict_get basic ''total_points'' (Some 0),
             dict_get basic ''total_duration_ms'' (Some 0),
             dict_get basic ''average_points_per_stroke'' (Some 0)];
          velocity = dict_get features_dict ''velocity_features'' Map.empty;
          flat2 = flat1 @
            [dict_get velocity ''average_velocity'' (Some 0),
             dict_get velocity ''max_velocity'' (Some 0),
             dict_get velocity ''min_velocity'' (Some 0),
             dict_get velocity ''velocity_std'' (Some 0)];
          shape = dict_get features_dict ''shape_features'' Map.empty;
          flat3 = flat2 @
            [dict_get shape ''width'' (Some 0),
             dict_get shape ''height'' (Some 0),
             dict_get shape ''area'' (Some 0),
             dict_get shape ''aspect_ratio'' (Some 0),
             dict_get shape ''center_x'' (Some 0),
             dict_get shape ''center_y'' (Some 0)];
          stroke = dict_get features_dict ''stroke_features'' Map.empty;
          flat4 = flat3 @
            [dict_get stroke ''average_stroke_length'' (Some 0),
             dict_get stroke ''total_length'' (Some 0),
             dict_get stroke ''length_variation'' (Some 0),
             dict_get stroke ''average_stroke_duration'' (Some 0),
             dict_get stroke ''duration_variation'' (Some 0)]
      in map none_to_zero flat4)"

text \<open>The names that \<open>SignatureMLModel._flatten_features\<close> stores on first use.\<close>

definition trained_feature_names :: "string list" where
  "trained_feature_names =
     [''stroke_count'', ''total_points'', ''total_duration_ms'', ''avg_points_per_stroke'',
      ''avg_velocity'', ''max_velocity'', ''min_velocity'', ''velocity_std'',
      ''width'', ''height'', ''area'', ''aspect_ratio'', ''center_x'', ''center_y'',
      ''avg_stroke_length'', ''total_length'', ''length_variation'',
      ''avg_stroke_duration'', ''duration_variation'']"

text \<open>
  \<open>SignatureMLModel._flatten_features\<close>: the same four groups; the object's
  \<open>feature_names\<close> is the state, returned updated with the vector.
\<close>

definition train_flatten_features ::
  "string list \<Rightarrow> features_dict \<Rightarrow> string list \<times> real list" where
  "train_flatten_features self_feature_names features_dict =
     (let flat0 = [];
          basic = dict_get features_dict ''basic_stats'' Map.empty;
          flat1 = flat0 @
            [dict_get basic ''stroke_count'' (Some 0),
             dict_get basic ''total_points'' (Some 0),
             dict_get basic ''total_duration_ms'' (Some 0),
             dict_get basic ''average_points_per_stroke'' (Some 0)];
          velocity = dict_get features_dict ''velocity_features'' Map.empty;
          flat2 = flat1 @
            [dict_get velocity ''average_velocity'' (Some 0),
             dict_get velocity ''max_velocity'' (Some 0),
             dict_get velocity ''min_velocity'' (Some 0),
             dict_get velocity ''velocity_std'' (Some 0)];
          shape = dict_get features_dict ''shape_features'' Map.empty;
          flat3 = flat2 @
            [dict_get shape ''width'' (Some 0),
             dict_get shape ''height'' (Some 0),
             dict_get shape ''area'' (Some 0),
             dict_get shape ''aspect_ratio'' (Some 0),
             dict_get shape ''center_x'' (Some 0),
             dict_get shape ''center_y'' (Some 0)];
          stroke = dict_get features_dict ''stroke_features'' Map.empty;
          flat4 = flat3 @
            [dict_get stroke ''average_stroke_length'' (Some 0),
             dict_get stroke ''total_length'' (Some 0),
             dict_get stroke ''length_variation'' (Some 0),
             dict_get stroke ''average_stroke_duration'' (Some 0),
             dict_get stroke ''duration_variation'' (Some 0)];
          feature_names' =
            (if self_feature_names = [] then trained_feature_names else self_feature_names)
      in (feature_names', map none_to_zero flat4))"

section \<open>Verification with the stored network (verify_signature.py)\<close>

text \<open>
  The loaded artefacts: the feature names, the scaler's \<open>transform\<close> and the network's
  \<open>predict\<close> (one sigmoid score). Both capabilities are external and may raise.
\<close>

record verifier =
  v_feature_names :: "string list"
  v_scaler :: "real list \<Rightarrow> py_error + real list"
  v_model :: "real list \<Rightarrow> py_error + real"

record analysis =
  a_is_genuine :: bool
  a_confidence :: real
  a_threshold :: real
  a_features :: "string \<rightharpoonup> real"
  a_verdict :: string

text \<open>
  The pad-or-truncate block of \<open>verify_signature\<close>. The function's second argument,
  \<open>claimed_user_id\<close>, is read nowhere in its body and is not a parameter of the
  model.
\<close>

definition match_feature_count :: "string list \<Rightarrow> real list \<Rightarrow> real list" where
  "match_feature_count feature_names flat_features =
     (if length flat_features \<noteq> length feature_names
      then (if length flat_features < length feature_names
            then flat_features @ replicate (length feature_names - length flat_features) 0
            else take (length feature_names) flat_features)
      else flat_features)"

text \<open>
  \<open>{name: float(value) for name, value in zip(names[:len(flat)], flat)}\<close>: a later
  pair overwrites an earlier one with the same name.
\<close>

definition feature_report :: "string list \<Rightarrow> real list \<Rightarrow> (string \<rightharpoonup> real)" where
  "feature_report feature_names flat_features =
     fold (\<lambda>(name, v) d. d(name \<mapsto> v))
          (zip (take (length flat_features) feature_names) flat_features) Map.empty"

definition verify_signature ::
  "verifier \<Rightarrow> signature_data \<Rightarrow> py_error + (bool \<times> real \<times> analysis)" where
  "verify_signature self sd =
     (case process_signature sd of
        Inl e \<Rightarrow> Inl e
      | Inr features \<Rightarrow>
          (let flat_features =
                 match_feature_count (v_feature_names self) (flatten_features features)
           in case v_scaler self flat_features of
                Inl e \<Rightarrow> Inl e
              | Inr X_scaled \<Rightarrow>
                  (case v_model self X_scaled of
                     Inl e \<Rightarrow> Inl e
                   | Inr prediction \<Rightarrow>
                       (let confidence = prediction * 100;
                            is_genuine = (prediction > 0.5);
                            report =
                              \<lparr>a_is_genuine = is_genuine,
                               a_confidence = confidence,
                               a_threshold = 50.0,
                               a_features =
                                 feature_report (v_feature_names self) flat_features,
                               a_verdict =
                                 (if is_genuine then ''GENUINE'' else ''FORGERY DETECTED'')\<rparr>
                        in Inr (is_genuine, confidence, report)))))"

section \<open>Prediction from stored and current metrics (ml_api_server.py)\<close>

record classifier =
  cl_feature_names :: "string list"
  cl_transform :: "real list \<Rightarrow> py_error + real list"
  cl_predict :: "real list \<Rightarrow> py_error + int"
  cl_predict_proba :: "real list \<Rightarrow> py_error + real list"

record predict_request =
  stored_features :: "(string \<rightharpoonup> real) option"
  current_features :: "(string \<rightharpoonup> real) option"

record prediction_body =
  r_prediction :: int
  r_confidence_score :: real
  r_is_genuine :: bool
  r_prob_forgery :: real
  r_prob_genuine :: real

datatype response =
  Success prediction_body
  | Failure py_error real

text \<open>The body of the loop over \<open>feature_names\<close>.\<close>

definition diff_feature :: "string \<Rightarrow> real \<Rightarrow> real \<Rightarrow> real" where
  "diff_feature feature_name stored_val current_val =
     (let diff = \<bar>current_val - stored_val\<bar>;
          rel_diff =
            (if stored_val \<noteq> 0
             then \<bar>(current_val - stored_val) / stored_val\<bar>
             else (if current_val \<noteq> 0 then 1.0 else 0.0))
      in if feature_name \<in> set [''stroke_count'', ''total_points'']
         then diff
         else rel_diff)"

definition diff_features ::
  "string list \<Rightarrow> (string \<rightharpoonup> real) \<Rightarrow> (string \<rightharpoonup> real) \<Rightarrow> real list" where
  "diff_features feature_names stored_metrics current_metrics =
     fold (\<lambda>feature_name features.
             features @
               [diff_feature feature_name
                  (dict_get stored_metrics feature_name 0)
                  (dict_get current_metrics feature_name 0)])
          feature_names []"

text \<open>\<open>probability[i]\<close> on the array returned by \<open>predict_proba\<close>.\<close>

definition proba_at :: "real list \<Rightarrow> nat \<Rightarrow> py_error + real" where
  "proba_at probability i = (if i < length probability then Inr (probability ! i) else Inl IndexError)"

text \<open>
  The \<open>try\<close> block of \<open>predict\<close>. The globals \<open>model, scaler, feature_names\<close> are
  \<open>None\<close> when loading failed, and iterating over \<open>None\<close> raises \<open>TypeError\<close>. The
  debug \<open>print\<close> reads both probabilities, so it is part of what can raise.
\<close>

definition predict_body :: "classifier option \<Rightarrow> predict_request \<Rightarrow> py_error + prediction_body" where
  "predict_body loaded data =
     (case stored_features data of
        None \<Rightarrow> Inl (KeyError ''stored_features'')
      | Some stored_metrics \<Rightarrow>
     (case current_features data of
        None \<Rightarrow> Inl (KeyError ''current_features'')
      | Some current_metrics \<Rightarrow>
     (case loaded of
        None \<Rightarrow> Inl TypeError
      | Some c \<Rightarrow>
     (let features = diff_features (cl_feature_names c) stored_metrics current_metrics
      in case cl_transform c features of
        Inl e \<Rightarrow> Inl e
      | Inr features_scaled \<Rightarrow>
     (case cl_predict c features_scaled of
        Inl e \<Rightarrow> Inl e
      | Inr prediction \<Rightarrow>
     (case cl_predict_proba c features_scaled of
        Inl e \<Rightarrow> Inl e
      | Inr probability \<Rightarrow>
     (case (if prediction = 1
            then (case proba_at probability 1 of
                    Inl e \<Rightarrow> Inl e
                  | Inr p1 \<Rightarrow> Inr (p1 * 100))
            else (case proba_at probability 0 of
                    Inl e \<Rightarrow> Inl e
                  | Inr p0 \<Rightarrow> Inr ((1 - p0) * 100))) of
        Inl e \<Rightarrow> Inl e
      | Inr confidence_score \<Rightarrow>
     (case proba_at probability 0 of
        Inl e \<Rightarrow> Inl e
      | Inr p0 \<Rightarrow>
     (case proba_at probability 1 of
        Inl e \<Rightarrow> Inl e
      | Inr p1 \<Rightarrow>
          Inr \<lparr>r_prediction = prediction,
               r_confidence_score = confidence_score,
               r_is_genuine = (prediction = 1),
               r_prob_forgery = p0,
               r_prob_genuine = p1\<rparr>)))))))))"

text \<open>The \<open>except\<close> clause turns every exception into the failure response.\<close>

definition predict :: "classifier option \<Rightarrow> predict_request \<Rightarrow> response" where
  "predict loaded data =
     (case predict_body loaded data of
        Inl e \<Rightarrow> Failure e 0
      | Inr body \<Rightarrow> Success body)"

section \<open>The collector's history and consistency analysis (collect_signature_data.py)\<close>

record signature_record =
  user_id :: string
  sig_type :: string
  raw_data :: signature_data
  features :: features_dict

record collector =
  signatures :: "signature_record list"

text \<open>\<open>save_signature\<close> without the file it also writes.\<close>

definition save_signature ::
  "collector \<Rightarrow> signature_data \<Rightarrow> string \<Rightarrow> string \<Rightarrow> py_error + (collector \<times> features_dict)" where
  "save_signature self sd uid signature_type =
     (case process_signature sd of
        Inl e \<Rightarrow> Inl e
      | Inr fs \<Rightarrow>
          Inr (self\<lparr>signatures :=
                      signatures self @
                        [\<lparr>user_id = uid, sig_type = signature_type,
                          raw_data = sd, features = fs\<rparr>]\<rparr>,
               fs))"

text \<open>A list comprehension whose element expression may raise.\<close>

fun comprehension :: "('a \<Rightarrow> py_error + 'b) \<Rightarrow> 'a list \<Rightarrow> py_error + 'b list" where
  "comprehension f [] = Inr []"
| "comprehension f (a # as) =
     (case f a of
        Inl e \<Rightarrow> Inl e
      | Inr b \<Rightarrow>
          (case comprehension f as of
             Inl e \<Rightarrow> Inl e
           | Inr bs \<Rightarrow> Inr (b # bs)))"

text \<open>\<open>s['features'][cat][key]\<close>.\<close>

definition feature_of :: "string \<Rightarrow> string \<Rightarrow> signature_record \<Rightarrow> py_error + leaf" where
  "feature_of cat key s =
     (case getitem (features s) cat of
        Inl e \<Rightarrow> Inl e
      | Inr c \<Rightarrow> getitem c key)"

text \<open>numpy raises \<open>TypeError\<close> on a list that holds \<open>None\<close>.\<close>

definition as_numbers :: "leaf list \<Rightarrow> py_error + real list" where
  "as_numbers ls = (if None \<in> set ls then Inl TypeError else Inr (map the ls))"

text \<open>\<open>1 - (np.std(v) / np.mean(v) if np.mean(v) > 0 else 0)\<close>.\<close>

definition consistency :: "real list \<Rightarrow> real" where
  "consistency vs = 1 - (if np_mean vs > 0 then np_std vs / np_mean vs else 0)"

record consistency_report =
  velocity_consistency :: real
  stroke_count_consistency :: real
  area_consistency :: real
  sample_count :: nat

datatype consistency_result =
  Message string
  | Report consistency_report

text \<open>The history of one identity: the records kept as genuine for it.\<close>

definition user_signatures_of :: "collector \<Rightarrow> string \<Rightarrow> signature_record list" where
  "user_signatures_of self uid =
     filter (\<lambda>s. user_id s = uid \<and> sig_type s = ''genuine'') (signatures self)"

definition analyze_consistency :: "collector \<Rightarrow> string \<Rightarrow> py_error + consistency_result" where
  "analyze_consistency self uid =
     (let user_signatures = user_signatures_of self uid
      in if length user_signatures < 2
         then Inr (Message ''Need at least 2 signatures to analyze consistency'')
         else
     (case comprehension (feature_of ''velocity_features'' ''average_velocity'') user_signatures of
        Inl e \<Rightarrow> Inl e
      | Inr velocities \<Rightarrow>
     (case comprehension (feature_of ''basic_stats'' ''stroke_count'') user_signatures of
        Inl e \<Rightarrow> Inl e
      | Inr stroke_counts \<Rightarrow>
     (case comprehension (feature_of ''shape_features'' ''area'') user_signatures of
        Inl e \<Rightarrow> Inl e
      | Inr areas \<Rightarrow>
     (case as_numbers velocities of
        Inl e \<Rightarrow> Inl e
      | Inr vs \<Rightarrow>
     (case as_numbers stroke_counts of
        Inl e \<Rightarrow> Inl e
      | Inr cs \<Rightarrow>
     (case as_numbers areas of
        Inl e \<Rightarrow> Inl e
      | Inr ars \<Rightarrow>
          Inr (Report
                 \<lparr>velocity_consistency = consistency vs,
                  stroke_count_consistency = consistency cs,
                  area_consistency = consistency ars,
                  sample_count = length user_signatures\<rparr>))))))))"

section \<open>States of the collector\<close>

text \<open>
  A collector starts with no signatures, and \<open>save_signature\<close> is the only operation
  that adds one.
\<close>

inductive reachable :: "collector \<Rightarrow> bool" where
  init: "reachable \<lparr>signatures = []\<rparr>"
| save: "reachable self \<Longrightarrow> save_signature self sd uid signature_type = Inr (self', fs)
           \<Longrightarrow> reachable self'"

text \<open>The number a record holds for one metric, for stating what the analysis sees.\<close>

definition metric :: "string \<Rightarrow> string \<Rightarrow> signature_record \<Rightarrow> real" where
  "metric cat key s = none_to_zero (dict_get (dict_get (features s) cat Map.empty) key None)"

section \<open>The specification's formulas\<close>


text \<open>
  The diff feature in the specification's words: the absolute difference for the two
  counts, otherwise \<open>|attempt - reference| / reference\<close> if the reference is not 0,
  else 1 if the attempt is not 0, else 0.
\<close>

definition spec_diff_feature :: "string \<Rightarrow> real \<Rightarrow> real \<Rightarrow> real" where
  "spec_diff_feature feature_name reference attempt =
     (if feature_name = ''stroke_count'' \<or> feature_name = ''total_points''
      then \<bar>attempt - reference\<bar>
      else if reference \<noteq> 0 then \<bar>attempt - reference\<bar> / reference
      else if attempt \<noteq> 0 then 1
      else 0)"

text \<open>
  The fixed order of the vector as (category, key) pairs, and the value a slot takes
  from a feature dictionary: 0 for a missing category, a missing key or \<open>None\<close>.
\<close>

definition feature_slots :: "(string \<times> string) list" where
  "feature_slots =
     [(''basic_stats'', ''stroke_count''),
      (''basic_stats'', ''total_points''),
      (''basic_stats'', ''total_duration_ms''),
      (''basic_stats'', ''average_points_per_stroke''),
      (''velocity_features'', ''average_velocity''),
      (''velocity_features'', ''max_velocity''),
      (''velocity_features'', ''min_velocity''),
      (''velocity_features'', ''velocity_std''),
      (''shape_features'', ''width''),
      (''shape_features'', ''height''),
      (''shape_features'', ''area''),
      (''shape_features'', ''aspect_ratio''),
      (''shape_features'', ''center_x''),
      (''shape_features'', ''center_y''),
      (''stroke_features'', ''average_stroke_length''),
      (''stroke_features'', ''total_length''),
      (''stroke_features'', ''length_variation''),
      (''stroke_features'', ''average_stroke_duration''),
      (''stroke_features'', ''duration_variation'')]"

fun slot_value :: "features_dict \<Rightarrow> string \<times> string \<Rightarrow> real" where
  "slot_value fd (cat, key) =
     (case fd cat of
        None \<Rightarrow> 0
      | Some c \<Rightarrow>
          (case c key of
             None \<Rightarrow> 0
           | Some None \<Rightarrow> 0
           | Some (Some v) \<Rightarrow> v))"

section \<open>Stand-ins for the external capabilities\<close>

text \<open>
  The scaler and the model are loaded from disk and are not part of the repository.
  These fixed ones serve to run the code on concrete inputs.
\<close>

definition identity_scaler :: "real list \<Rightarrow> py_error + real list" where
  "identity_scaler X = Inr X"

text \<open>A scaler that, like scikit-learn's, rejects a vector of another length than it was fit on.\<close>

definition checking_scaler :: "nat \<Rightarrow> real list \<Rightarrow> py_error + real list" where
  "checking_scaler n X = (if length X = n then Inr X else Inl ValueError)"

definition constant_score :: "real \<Rightarrow> real list \<Rightarrow> py_error + real" where
  "constant_score p X = Inr p"

definition constant_label :: "int \<Rightarrow> real list \<Rightarrow> py_error + int" where
  "constant_label l X = Inr l"

definition constant_proba :: "real list \<Rightarrow> real list \<Rightarrow> py_error + real list" where
  "constant_proba ps X = Inr ps"

section \<open>The example of the source\<close>

text \<open>
  \<open>example_signature\<close> of \<open>collect_signature_data.py\<close>: one stroke of three timed
  points. \<open>example_record\<close> is the record that \<open>save_signature\<close> keeps for it as a
  genuine sample of a user.
\<close>

definition example_signature :: signature_data where
  "example_signature =
     \<lparr>strokes = Some
        [\<lparr>points = Some
            [\<lparr>p_x = 100, p_y = 100, p_time = Some 0\<rparr>,
             \<lparr>p_x = 150, p_y = 120, p_time = Some 50\<rparr>,
             \<lparr>p_x = 200, p_y = 130, p_time = Some 100\<rparr>],
          startTime = Some 0,
          endTime = Some 100\<rparr>]\<rparr>"

definition example_record :: "string \<Rightarrow> signature_record" where
  "example_record uid =
     \<lparr>user_id = uid, sig_type = ''genuine'', raw_data = example_signature,
      features = projr (process_signature example_signature)\<rparr>"

section \<open>Facts about extraction\<close>

lemma time_diff_ge_1: "1 \<le> time_diff p1 p2"
  by (simp add: time_diff_def)

lemma velocity_nonneg: "0 \<le> velocity p1 p2"
  using time_diff_ge_1 [of p1 p2] by (simp add: velocity_def distance_def)

lemma velocities_of_nonneg: "v \<in> set (velocities_of ss) \<Longrightarrow> 0 \<le> v"
  by (auto simp: velocities_of_def stroke_velocities_def velocity_nonneg)

lemma np_mean_nonneg: "(\<And>v. v \<in> set vs \<Longrightarrow> 0 \<le> v) \<Longrightarrow> 0 \<le> np_mean vs"
  by (simp add: np_mean_def sum_list_nonneg)

lemma np_min_le_max: "vs \<noteq> [] \<Longrightarrow> np_min vs \<le> np_max vs"
  by (simp add: np_min_def np_max_def)

lemma total_points_of_Inr:
  "(\<forall>s \<in> set ss. points s \<noteq> None) \<Longrightarrow> \<exists>n. total_points_of ss = Inr n"
  by (induction ss) auto

lemma basic_stats_Inr:
  "(\<forall>s \<in> set ss. points s \<noteq> None) \<Longrightarrow> \<exists>b. calculate_basic_stats ss = Inr b"
  using total_points_of_Inr [of ss] by (auto simp: calculate_basic_stats_def Let_def)

lemma process_signature_Inr:
  "(\<forall>s \<in> set (get_strokes sd). points s \<noteq> None) \<Longrightarrow> \<exists>fs. process_signature sd = Inr fs"
  using basic_stats_Inr [of "get_strokes sd"] by (auto simp: process_signature_def Let_def)

lemma process_signature_no_strokes:
  assumes "get_strokes sd = []"
  shows "\<exists>fs. process_signature sd = Inr fs \<and> flatten_features fs = replicate 19 0"
proof -
  have "process_signature sd =
          Inr [''basic_stats'' \<mapsto> [''stroke_count'' \<mapsto> Some 0, ''total_points'' \<mapsto> Some 0,
                 ''total_duration_ms'' \<mapsto> Some 0, ''average_points_per_stroke'' \<mapsto> Some 0],
               ''velocity_features'' \<mapsto> calculate_velocity_features [],
               ''shape_features'' \<mapsto> calculate_shape_features [],
               ''stroke_features'' \<mapsto> calculate_stroke_features []]"
    using assms by (simp add: process_signature_def calculate_basic_stats_def)
  moreover have "calculate_velocity_features [] =
      [''average_velocity'' \<mapsto> Some 0, ''max_velocity'' \<mapsto> Some 0,
       ''min_velocity'' \<mapsto> Some 0, ''velocity_std'' \<mapsto> Some 0]"
    by (simp add: calculate_velocity_features_def velocities_of_def)
  moreover have "calculate_shape_features [] =
      [''width'' \<mapsto> Some 0, ''height'' \<mapsto> Some 0, ''area'' \<mapsto> Some 0,
       ''aspect_ratio'' \<mapsto> Some 0]"
    by (simp add: calculate_shape_features_def)
  moreover have "calculate_stroke_features [] =
      [''average_stroke_length'' \<mapsto> Some 0, ''total_length'' \<mapsto> Some 0,
       ''length_variation'' \<mapsto> Some 0]"
    by (simp add: calculate_stroke_features_def stroke_durations_of_def)
  ultimately show ?thesis
    by (simp add: flatten_features_def dict_get_def none_to_zero_def numeral_eq_Suc)
qed

section \<open>Velocity never divides by zero\<close>

text \<open>
  Claim C10. For every consecutive point pair of a stroke the velocity is
  \<open>distance / time_diff\<close>, where \<open>time_diff\<close> is \<open>max (p2.t - p1.t) 1\<close> when both points
  have a timestamp and 1 when one of them lacks it; so \<open>time_diff\<close> is at least 1, never
  0, and the pool of velocities holds exactly these quotients.
\<close>

theorem time_diff_at_least_one:
  "1 \<le> time_diff p1 p2
   \<and> time_diff p1 p2 \<noteq> 0
   \<and> (p_time p1 = Some t1 \<and> p_time p2 = Some t2 \<longrightarrow> time_diff p1 p2 = max (t2 - t1) 1)
   \<and> (p_time p1 = None \<or> p_time p2 = None \<longrightarrow> time_diff p1 p2 = 1)
   \<and> (\<forall>v \<in> set (velocities_of ss).
        \<exists>s \<in> set ss. \<exists>i. 1 \<le> i \<and> i < length (get_points s) \<and>
          v = distance (get_points s ! (i - 1)) (get_points s ! i)
              / time_diff (get_points s ! (i - 1)) (get_points s ! i))
   \<and> (\<forall>s \<in> set ss. \<forall>i. 1 \<le> i \<and> i < length (get_points s) \<longrightarrow>
        distance (get_points s ! (i - 1)) (get_points s ! i)
          / time_diff (get_points s ! (i - 1)) (get_points s ! i) \<in> set (velocities_of ss))"
proof -
  have ge: "1 \<le> time_diff p1 p2"
    by (rule time_diff_ge_1)
  then have nz: "time_diff p1 p2 \<noteq> 0"
    by simp
  have both: "p_time p1 = Some t1 \<and> p_time p2 = Some t2 \<longrightarrow> time_diff p1 p2 = max (t2 - t1) 1"
    by (simp add: time_diff_def)
  have lacking: "p_time p1 = None \<or> p_time p2 = None \<longrightarrow> time_diff p1 p2 = 1"
    by (auto simp: time_diff_def)
  have inner: "v \<in> set (stroke_velocities ps) \<longleftrightarrow>
      (\<exists>i. 1 \<le> i \<and> i < length ps \<and>
          v = distance (ps ! (i - 1)) (ps ! i) / time_diff (ps ! (i - 1)) (ps ! i))" for v ps
    unfolding stroke_velocities_def velocity_def set_map set_upt image_iff Bex_def atLeastLessThan_iff
    by (rule iffI; elim exE conjE; intro exI conjI; assumption)
  have pool: "v \<in> set (velocities_of ss) \<longleftrightarrow>
      (\<exists>s \<in> set ss. \<exists>i. 1 \<le> i \<and> i < length (get_points s) \<and>
          v = distance (get_points s ! (i - 1)) (get_points s ! i)
              / time_diff (get_points s ! (i - 1)) (get_points s ! i))" for v
    unfolding velocities_of_def set_concat set_map UN_iff bex_simps inner ..
  have from_pool: "\<forall>v \<in> set (velocities_of ss).
        \<exists>s \<in> set ss. \<exists>i. 1 \<le> i \<and> i < length (get_points s) \<and>
          v = distance (get_points s ! (i - 1)) (get_points s ! i)
              / time_diff (get_points s ! (i - 1)) (get_points s ! i)"
    using pool by blast
  have to_pool: "\<forall>s \<in> set ss. \<forall>i. 1 \<le> i \<and> i < length (get_points s) \<longrightarrow>
        distance (get_points s ! (i - 1)) (get_points s ! i)
          / time_diff (get_points s ! (i - 1)) (get_points s ! i) \<in> set (velocities_of ss)"
    using pool by blast
  from ge nz both lacking from_pool to_pool show ?thesis
    by blast
qed


text \<open>
  The floor at work: two points 5 apart with the same timestamp, and a pair where the
  second point has no timestamp.
\<close>

theorem time_diff_at_least_one_witness:
  "time_diff \<lparr>p_x = 0, p_y = 0, p_time = Some 7\<rparr> \<lparr>p_x = 3, p_y = 4, p_time = Some 7\<rparr> = 1
   \<and> time_diff \<lparr>p_x = 0, p_y = 0, p_time = Some 7\<rparr> \<lparr>p_x = 3, p_y = 4, p_time = None\<rparr> = 1
   \<and> velocities_of
        [\<lparr>points = Some [\<lparr>p_x = 0, p_y = 0, p_time = Some 7\<rparr>, \<lparr>p_x = 3, p_y = 4, p_time = Some 7\<rparr>],
          startTime = None, endTime = None\<rparr>] = [5]"
proof -
  let ?p = "\<lparr>p_x = 0, p_y = 0, p_time = Some 7\<rparr>"
  let ?q = "\<lparr>p_x = 3, p_y = 4, p_time = Some 7\<rparr>"
  let ?r = "\<lparr>p_x = 3, p_y = 4, p_time = None\<rparr>"
  have "p_time ?p = Some 7 \<and> p_time ?q = Some 7"
    by simp
  with time_diff_at_least_one [of ?p ?q 7 7 "[]"] have 1: "time_diff ?p ?q = 1"
    by simp
  have "p_time ?p = None \<or> p_time ?r = None"
    by simp
  with time_diff_at_least_one [of ?p ?r 7 7 "[]"] have 2: "time_diff ?p ?r = 1"
    by blast
  have 3: "velocities_of [\<lparr>points = Some [?p, ?q], startTime = None, endTime = None\<rparr>] = [5]"
    using 1 by (simp add: velocities_of_def stroke_velocities_def get_points_def velocity_def distance_def)
  from 1 2 3 show ?thesis by blast
qed

section \<open>Extraction of degenerate input\<close>



section \<open>Flattening has a fixed length\<close>

lemma slot_value_get:
  "none_to_zero (dict_get (dict_get fd cat Map.empty) key (Some 0)) = slot_value fd (cat, key)"
  by (simp add: dict_get_def none_to_zero_def split: option.splits)

lemma flatten_features_slots: "flatten_features fd = map (slot_value fd) feature_slots"
  unfolding flatten_features_def feature_slots_def Let_def
  by (simp only: append.simps list.map slot_value_get)

lemma train_flatten_features_slots:
  "train_flatten_features ns fd =
     (if ns = [] then trained_feature_names else ns, map (slot_value fd) feature_slots)"
  unfolding train_flatten_features_def feature_slots_def Let_def
  by (simp only: append.simps list.map slot_value_get)

lemma length_feature_slots: "length feature_slots = 19"
  by (simp add: feature_slots_def)

text \<open>
  Claim C5. For every feature dictionary, both flattening functions return the 19
  numbers of the fixed order, slot by slot: the value stored under the slot's category
  and key, and 0 when the category is missing, the key is missing or the value is
  \<open>None\<close>. The training-side function also fixes the 19 names on first use.
\<close>

theorem flatten_always_nineteen:
  "flatten_features fd = map (slot_value fd) feature_slots
   \<and> length (flatten_features fd) = 19
   \<and> snd (train_flatten_features ns fd) = map (slot_value fd) feature_slots
   \<and> length (snd (train_flatten_features ns fd)) = 19
   \<and> fst (train_flatten_features [] fd) = trained_feature_names
   \<and> length trained_feature_names = 19
   \<and> slot_value Map.empty sl = 0
   \<and> slot_value [cat \<mapsto> Map.empty] (cat, key) = 0
   \<and> slot_value [cat \<mapsto> [key \<mapsto> None]] (cat, key) = 0
   \<and> slot_value [cat \<mapsto> [key \<mapsto> Some v]] (cat, key) = v"
  by (cases sl) (simp add: flatten_features_slots train_flatten_features_slots length_feature_slots
      trained_feature_names_def)

section \<open>Consistency analysis\<close>

lemma basic_stats_stroke_count:
  "calculate_basic_stats ss = Inr b \<Longrightarrow> b ''stroke_count'' = Some (Some (real (length ss)))"
  by (auto simp: calculate_basic_stats_def Let_def split: sum.splits)

lemma velocity_features_average:
  "\<exists>v. calculate_velocity_features ss ''average_velocity'' = Some (Some v) \<and> 0 \<le> v"
proof -
  have "0 \<le> np_mean (velocities_of ss)"
    by (rule np_mean_nonneg) (rule velocities_of_nonneg)
  then show ?thesis
    by (simp add: calculate_velocity_features_def Let_def)
qed

lemma shape_features_area:
  "\<exists>v. calculate_shape_features ss ''area'' = Some (Some v) \<and> 0 \<le> v"
proof (cases "concat (map get_points ss) = []")
  case True
  then show ?thesis by (simp add: calculate_shape_features_def)
next
  case False
  then have "map p_x (concat (map get_points ss)) \<noteq> []"
    and "map p_y (concat (map get_points ss)) \<noteq> []"
    by simp_all
  then have "np_min (map p_x (concat (map get_points ss)))
               \<le> np_max (map p_x (concat (map get_points ss)))"
    and "np_min (map p_y (concat (map get_points ss)))
               \<le> np_max (map p_y (concat (map get_points ss)))"
    by (simp_all add: np_min_le_max del: map_is_Nil_conv)
  with False show ?thesis
    by (simp add: calculate_shape_features_def Let_def)
qed

lemma process_signature_categories:
  assumes "process_signature sd = Inr fs"
  shows "\<exists>b. calculate_basic_stats (get_strokes sd) = Inr b \<and> fs ''basic_stats'' = Some b"
    and "fs ''velocity_features'' = Some (calculate_velocity_features (get_strokes sd))"
    and "fs ''shape_features'' = Some (calculate_shape_features (get_strokes sd))"
    and "fs ''stroke_features'' = Some (calculate_stroke_features (get_strokes sd))"
  using assms by (auto simp: process_signature_def Let_def split: sum.splits)

text \<open>Every record of a reachable collector holds the extraction of its raw data.\<close>

lemma reachable_extracted:
  "reachable self \<Longrightarrow> s \<in> set (signatures self)
     \<Longrightarrow> process_signature (raw_data s) = Inr (features s)"
proof (induction arbitrary: s rule: reachable.induct)
  case init
  then show ?case by simp
next
  case (save self sd uid signature_type self' fs)
  then show ?case
    by (auto simp: save_signature_def split: sum.splits)
qed

lemma comprehension_map:
  "(\<And>a. a \<in> set as \<Longrightarrow> f a = Inr (g a)) \<Longrightarrow> comprehension f as = Inr (map g as)"
  by (induction as) auto

lemma as_numbers_Some: "as_numbers (map Some vs) = Inr vs"
  by (auto simp: as_numbers_def comp_def)

lemma extracted_feature_of:
  assumes "process_signature (raw_data s) = Inr (features s)"
  shows "feature_of ''velocity_features'' ''average_velocity'' s
           = Inr (Some (metric ''velocity_features'' ''average_velocity'' s))"
    and "feature_of ''basic_stats'' ''stroke_count'' s
           = Inr (Some (metric ''basic_stats'' ''stroke_count'' s))"
    and "feature_of ''shape_features'' ''area'' s
           = Inr (Some (metric ''shape_features'' ''area'' s))"
    and "0 \<le> metric ''velocity_features'' ''average_velocity'' s"
    and "0 \<le> metric ''basic_stats'' ''stroke_count'' s"
    and "0 \<le> metric ''shape_features'' ''area'' s"
proof -
  note cats = process_signature_categories [OF assms]
  obtain v where v:
    "calculate_velocity_features (get_strokes (raw_data s)) ''average_velocity'' = Some (Some v)"
    "0 \<le> v"
    using velocity_features_average by blast
  obtain a where a:
    "calculate_shape_features (get_strokes (raw_data s)) ''area'' = Some (Some a)" "0 \<le> a"
    using shape_features_area by blast
  obtain b where b:
    "calculate_basic_stats (get_strokes (raw_data s)) = Inr b" "features s ''basic_stats'' = Some b"
    using cats(1) by blast
  note c = basic_stats_stroke_count [OF b(1)]
  show "feature_of ''velocity_features'' ''average_velocity'' s
          = Inr (Some (metric ''velocity_features'' ''average_velocity'' s))"
    using cats(2) v by (simp add: feature_of_def getitem_def metric_def dict_get_def none_to_zero_def)
  show "feature_of ''basic_stats'' ''stroke_count'' s
          = Inr (Some (metric ''basic_stats'' ''stroke_count'' s))"
    using b(2) c by (simp add: feature_of_def getitem_def metric_def dict_get_def none_to_zero_def)
  show "feature_of ''shape_features'' ''area'' s
          = Inr (Some (metric ''shape_features'' ''area'' s))"
    using cats(3) a by (simp add: feature_of_def getitem_def metric_def dict_get_def none_to_zero_def)
  show "0 \<le> metric ''velocity_features'' ''average_velocity'' s"
    using cats(2) v by (simp add: metric_def dict_get_def none_to_zero_def)
  show "0 \<le> metric ''basic_stats'' ''stroke_count'' s"
    using b(2) c by (simp add: metric_def dict_get_def none_to_zero_def)
  show "0 \<le> metric ''shape_features'' ''area'' s"
    using cats(3) a by (simp add: metric_def dict_get_def none_to_zero_def)
qed

text \<open>What the analysis returns on a reachable collector.\<close>

lemma analyze_reachable:
  assumes "reachable self"
  shows "analyze_consistency self uid =
     (let us = user_signatures_of self uid in
      if length us < 2
      then Inr (Message ''Need at least 2 signatures to analyze consistency'')
      else Inr (Report
        \<lparr>velocity_consistency =
           consistency (map (metric ''velocity_features'' ''average_velocity'') us),
         stroke_count_consistency =
           consistency (map (metric ''basic_stats'' ''stroke_count'') us),
         area_consistency =
           consistency (map (metric ''shape_features'' ''area'') us),
         sample_count = length us\<rparr>))"
proof -
  let ?us = "user_signatures_of self uid"
  have ex: "process_signature (raw_data s) = Inr (features s)" if "s \<in> set ?us" for s
    using that reachable_extracted [OF assms] by (simp add: user_signatures_of_def)
  have 1: "comprehension (feature_of ''velocity_features'' ''average_velocity'') ?us
      = Inr (map (\<lambda>s. Some (metric ''velocity_features'' ''average_velocity'' s)) ?us)"
    by (rule comprehension_map) (simp add: extracted_feature_of(1) ex)
  have 2: "comprehension (feature_of ''basic_stats'' ''stroke_count'') ?us
      = Inr (map (\<lambda>s. Some (metric ''basic_stats'' ''stroke_count'' s)) ?us)"
    by (rule comprehension_map) (simp add: extracted_feature_of(2) ex)
  have 3: "comprehension (feature_of ''shape_features'' ''area'') ?us
      = Inr (map (\<lambda>s. Some (metric ''shape_features'' ''area'' s)) ?us)"
    by (rule comprehension_map) (simp add: extracted_feature_of(3) ex)
  have n: "as_numbers (map (\<lambda>s. Some (g s)) ?us) = Inr (map g ?us)" for g
    using as_numbers_Some [of "map g ?us"] by (simp add: comp_def)
  show ?thesis
    by (simp add: analyze_consistency_def Let_def 1 2 3 n)
qed




lemma reachable_two_saves:
  assumes "process_signature sd = Inr fs"
  shows "reachable \<lparr>signatures =
           [\<lparr>user_id = uid, sig_type = ty, raw_data = sd, features = fs\<rparr>,
            \<lparr>user_id = uid', sig_type = ty', raw_data = sd, features = fs\<rparr>]\<rparr>"
proof -
  have "save_signature \<lparr>signatures = []\<rparr> sd uid ty
          = Inr (\<lparr>signatures = [\<lparr>user_id = uid, sig_type = ty, raw_data = sd, features = fs\<rparr>]\<rparr>, fs)"
    using assms by (simp add: save_signature_def)
  from reachable.save [OF reachable.init this]
  have 1: "reachable \<lparr>signatures = [\<lparr>user_id = uid, sig_type = ty, raw_data = sd, features = fs\<rparr>]\<rparr>" .
  have "save_signature \<lparr>signatures = [\<lparr>user_id = uid, sig_type = ty, raw_data = sd, features = fs\<rparr>]\<rparr>
           sd uid' ty'
          = Inr (\<lparr>signatures = [\<lparr>user_id = uid, sig_type = ty, raw_data = sd, features = fs\<rparr>,
                    \<lparr>user_id = uid', sig_type = ty', raw_data = sd, features = fs\<rparr>]\<rparr>, fs)"
    using assms by (simp add: save_signature_def)
  from reachable.save [OF 1 this] show ?thesis .
qed

lemma example_signature_extracted:
  "process_signature example_signature = Inr (projr (process_signature example_signature))"
proof -
  have "\<forall>s \<in> set (get_strokes example_signature). points s \<noteq> None"
    by (simp add: example_signature_def get_strokes_def)
  then obtain fs where "process_signature example_signature = Inr fs"
    using process_signature_Inr by blast
  then show ?thesis by simp
qed

lemma example_history_reachable:
  "reachable \<lparr>signatures = [example_record uid, example_record uid']\<rparr>"
  unfolding example_record_def
  by (rule reachable_two_saves) (rule example_signature_extracted)

text \<open>
  Claim C7. When the history of an identity holds fewer than 2 genuine samples, the
  analysis returns the message that at least 2 signatures are needed: a value, not an
  error and not a report. On every reachable collector with 2 or more genuine samples
  for the identity it returns a report whose sample count is the number of samples.
\<close>

theorem insufficient_history_reported:
  "(length (user_signatures_of self uid) < 2 \<longrightarrow>
      analyze_consistency self uid
        = Inr (Message ''Need at least 2 signatures to analyze consistency''))
   \<and> (reachable self \<and> 2 \<le> length (user_signatures_of self uid) \<longrightarrow>
      (\<exists>r. analyze_consistency self uid = Inr (Report r)
          \<and> sample_count r = length (user_signatures_of self uid)))"
proof (intro conjI impI)
  assume "length (user_signatures_of self uid) < 2"
  then show "analyze_consistency self uid
        = Inr (Message ''Need at least 2 signatures to analyze consistency'')"
    by (simp add: analyze_consistency_def)
next
  assume "reachable self \<and> 2 \<le> length (user_signatures_of self uid)"
  then show "\<exists>r. analyze_consistency self uid = Inr (Report r)
          \<and> sample_count r = length (user_signatures_of self uid)"
    by (simp add: analyze_reachable Let_def)
qed

text \<open>
  One sample of the source's example gives the message; two samples give a report
  that counts 2.
\<close>

theorem insufficient_history_reported_witness:
  "length (user_signatures_of \<lparr>signatures = [example_record ''user123'']\<rparr> ''user123'') < 2
   \<and> analyze_consistency \<lparr>signatures = [example_record ''user123'']\<rparr> ''user123''
       = Inr (Message ''Need at least 2 signatures to analyze consistency'')
   \<and> reachable \<lparr>signatures = [example_record ''user123'', example_record ''user123'']\<rparr>
   \<and> 2 \<le> length (user_signatures_of
         \<lparr>signatures = [example_record ''user123'', example_record ''user123'']\<rparr> ''user123'')
   \<and> (\<exists>r. analyze_consistency
         \<lparr>signatures = [example_record ''user123'', example_record ''user123'']\<rparr> ''user123''
           = Inr (Report r)
         \<and> sample_count r = 2)"
proof -
  let ?one = "\<lparr>signatures = [example_record ''user123'']\<rparr>"
  let ?two = "\<lparr>signatures = [example_record ''user123'', example_record ''user123'']\<rparr>"
  have one: "length (user_signatures_of ?one ''user123'') < 2"
    by (simp add: user_signatures_of_def example_record_def)
  have two: "length (user_signatures_of ?two ''user123'') = 2"
    by (simp add: user_signatures_of_def example_record_def)
  have r: "reachable ?two"
    by (rule example_history_reachable)
  from one insufficient_history_reported [of ?one "''user123''"]
  have m: "analyze_consistency ?one ''user123''
       = Inr (Message ''Need at least 2 signatures to analyze consistency'')"
    by blast
  from two r insufficient_history_reported [of ?two "''user123''"]
  have "\<exists>r. analyze_consistency ?two ''user123'' = Inr (Report r) \<and> sample_count r = 2"
    by simp
  with one m r two show ?thesis
    by simp
qed



section \<open>Verification with the stored network\<close>

lemma length_match_feature_count:
  "length (match_feature_count names flat) = length names"
  by (simp add: match_feature_count_def)

lemma fold_upd_other:
  "k \<notin> fst ` set ps \<Longrightarrow> fold (\<lambda>(name, v) d. d(name \<mapsto> v)) ps m k = m k"
  by (induction ps arbitrary: m) auto

lemma fold_upd_distinct:
  "distinct (map fst ps) \<Longrightarrow> (k, v) \<in> set ps
     \<Longrightarrow> fold (\<lambda>(name, v) d. d(name \<mapsto> v)) ps m k = Some v"
proof (induction ps arbitrary: m)
  case Nil
  then show ?case by simp
next
  case (Cons a ps)
  show ?case
  proof (cases "a = (k, v)")
    case True
    with Cons.prems have "k \<notin> fst ` set ps"
      by auto
    then have "fold (\<lambda>(name, v) d. d(name \<mapsto> v)) ps (m(k \<mapsto> v)) k = (m(k \<mapsto> v)) k"
      by (rule fold_upd_other)
    moreover have "fold (\<lambda>(name, v) d. d(name \<mapsto> v)) (a # ps) m
        = fold (\<lambda>(name, v) d. d(name \<mapsto> v)) ps (m(k \<mapsto> v))"
      unfolding True by (simp only: fold.simps o_apply split_conv)
    ultimately show ?thesis
      by (simp only: fun_upd_same)
  next
    case False
    with Cons show ?thesis
      by auto
  qed
qed

lemma fold_upd_dom:
  "dom (fold (\<lambda>(name, v) d. d(name \<mapsto> v)) ps m) = dom m \<union> fst ` set ps"
  by (induction ps arbitrary: m) auto

lemma feature_report_nth:
  assumes "distinct names" and "length flat = length names" and "i < length names"
  shows "feature_report names flat (names ! i) = Some (flat ! i)"
proof -
  have "(names ! i, flat ! i) \<in> set (zip names flat)"
    using assms by (auto simp: set_zip)
  moreover have "distinct (map fst (zip names flat))"
    using assms by simp
  ultimately show ?thesis
    using assms by (simp add: feature_report_def fold_upd_distinct)
qed

lemma feature_report_dom:
  "length flat = length names \<Longrightarrow> dom (feature_report names flat) = set names"
proof -
  assume len: "length flat = length names"
  have "fst ` set (zip names flat) = set (map fst (zip names flat))"
    by simp
  also have "\<dots> = set names"
    using len by (simp only: map_fst_zip)
  finally show ?thesis
    using len by (simp add: feature_report_def fold_upd_dom)
qed

lemma verify_signature_Inr:
  assumes "process_signature sd = Inr fs"
    and "v_scaler self (match_feature_count (v_feature_names self) (flatten_features fs)) = Inr X"
    and "v_model self X = Inr p"
  shows "verify_signature self sd =
     Inr (p > 1/2, p * 100,
          \<lparr>a_is_genuine = (p > 1/2), a_confidence = p * 100, a_threshold = 50,
           a_features = feature_report (v_feature_names self)
              (match_feature_count (v_feature_names self) (flatten_features fs)),
           a_verdict = (if p > 1/2 then ''GENUINE'' else ''FORGERY DETECTED'')\<rparr>)"
  using assms by (simp add: verify_signature_def Let_def)

lemma verify_signature_InrD:
  assumes "verify_signature self sd = Inr (g, c, a)"
  shows "\<exists>fs X p. process_signature sd = Inr fs
      \<and> v_scaler self (match_feature_count (v_feature_names self) (flatten_features fs)) = Inr X
      \<and> v_model self X = Inr p
      \<and> g = (p > 1/2) \<and> c = p * 100
      \<and> a = \<lparr>a_is_genuine = (p > 1/2), a_confidence = p * 100, a_threshold = 50,
           a_features = feature_report (v_feature_names self)
              (match_feature_count (v_feature_names self) (flatten_features fs)),
           a_verdict = (if p > 1/2 then ''GENUINE'' else ''FORGERY DETECTED'')\<rparr>"
proof (cases "process_signature sd")
  case (Inl e)
  with assms show ?thesis
    by (simp add: verify_signature_def)
next
  case fs: (Inr fs)
  show ?thesis
  proof (cases "v_scaler self (match_feature_count (v_feature_names self) (flatten_features fs))")
    case (Inl e)
    with assms fs show ?thesis
      by (simp add: verify_signature_def)
  next
    case X: (Inr X)
    show ?thesis
    proof (cases "v_model self X")
      case (Inl e)
      with assms fs X show ?thesis
        by (simp add: verify_signature_def)
    next
      case (Inr p)
      from verify_signature_Inr [OF fs X Inr] assms fs X Inr show ?thesis
        by simp
    qed
  qed
qed

lemma verify_signature_InlD:
  assumes "verify_signature self sd = Inl e"
  shows "process_signature sd = Inl e
     \<or> (\<exists>fs. process_signature sd = Inr fs
          \<and> (v_scaler self (match_feature_count (v_feature_names self) (flatten_features fs)) = Inl e
             \<or> (\<exists>X. v_scaler self (match_feature_count (v_feature_names self) (flatten_features fs)) = Inr X
                  \<and> v_model self X = Inl e)))"
proof (cases "process_signature sd")
  case (Inl e')
  with assms show ?thesis
    by (simp add: verify_signature_def)
next
  case fs: (Inr fs)
  show ?thesis
  proof (cases "v_scaler self (match_feature_count (v_feature_names self) (flatten_features fs))")
    case (Inl e')
    with assms fs show ?thesis
      by (simp add: verify_signature_def)
  next
    case X: (Inr X)
    show ?thesis
    proof (cases "v_model self X")
      case (Inl e')
      with assms fs X show ?thesis
        by (simp add: verify_signature_def)
    next
      case (Inr p)
      with assms fs X show ?thesis
        by (simp add: verify_signature_def Let_def)
    qed
  qed
qed

lemma verify_signature_no_strokes:
  assumes "v_scaler self (match_feature_count (v_feature_names self) (replicate 19 0)) = Inr X"
    and "v_model self X = Inr p"
  shows "verify_signature self \<lparr>strokes = Some []\<rparr> =
     Inr (p > 1/2, p * 100,
          \<lparr>a_is_genuine = (p > 1/2), a_confidence = p * 100, a_threshold = 50,
           a_features = feature_report (v_feature_names self)
              (match_feature_count (v_feature_names self) (replicate 19 0)),
           a_verdict = (if p > 1/2 then ''GENUINE'' else ''FORGERY DETECTED'')\<rparr>)"
proof -
  have "get_strokes \<lparr>strokes = Some []\<rparr> = []"
    by (simp add: get_strokes_def)
  then obtain fs where fs: "process_signature \<lparr>strokes = Some []\<rparr> = Inr fs"
      "flatten_features fs = replicate 19 0"
    using process_signature_no_strokes by blast
  from verify_signature_Inr [OF fs(1), of self X p] assms fs(2) show ?thesis
    by simp
qed

text \<open>
  Claim C6. The pad-or-truncate step always yields a vector of the expected length:
  the flattened vector followed by zeros when it was shorter, its prefix when it was
  longer. The step raises nothing: when extraction, the scaler and the model return,
  \<open>verify_signature\<close> returns the verdict computed from the adjusted vector, and an
  error of \<open>verify_signature\<close> is an error of extraction, of the scaler or of the model.
\<close>

theorem dimension_mismatch_padded:
  "length (match_feature_count names flat) = length names
   \<and> (length flat < length names \<longrightarrow>
        match_feature_count names flat = flat @ replicate (length names - length flat) 0)
   \<and> (length names < length flat \<longrightarrow>
        match_feature_count names flat = take (length names) flat)
   \<and> (process_signature sd = Inr fs
        \<and> v_scaler self (match_feature_count (v_feature_names self) (flatten_features fs)) = Inr X
        \<and> v_model self X = Inr p \<longrightarrow>
        (\<exists>a. verify_signature self sd = Inr (p > 1/2, p * 100, a)))
   \<and> (verify_signature self sd = Inl e \<longrightarrow>
        process_signature sd = Inl e
        \<or> (\<exists>fs'. process_signature sd = Inr fs'
             \<and> (v_scaler self (match_feature_count (v_feature_names self) (flatten_features fs')) = Inl e
                \<or> (\<exists>X'. v_scaler self (match_feature_count (v_feature_names self) (flatten_features fs')) = Inr X'
                     \<and> v_model self X' = Inl e))))"
proof -
  have 1: "length (match_feature_count names flat) = length names"
    by (rule length_match_feature_count)
  have 2: "length flat < length names \<longrightarrow>
        match_feature_count names flat = flat @ replicate (length names - length flat) 0"
    by (simp add: match_feature_count_def)
  have 3: "length names < length flat \<longrightarrow>
        match_feature_count names flat = take (length names) flat"
    by (simp add: match_feature_count_def)
  have 4: "process_signature sd = Inr fs
        \<and> v_scaler self (match_feature_count (v_feature_names self) (flatten_features fs)) = Inr X
        \<and> v_model self X = Inr p \<longrightarrow>
        (\<exists>a. verify_signature self sd = Inr (p > 1/2, p * 100, a))"
    using verify_signature_Inr [of sd fs self X p] by blast
  have 5: "verify_signature self sd = Inl e \<longrightarrow>
        process_signature sd = Inl e
        \<or> (\<exists>fs'. process_signature sd = Inr fs'
             \<and> (v_scaler self (match_feature_count (v_feature_names self) (flatten_features fs')) = Inl e
                \<or> (\<exists>X'. v_scaler self (match_feature_count (v_feature_names self) (flatten_features fs')) = Inr X'
                     \<and> v_model self X' = Inl e)))"
    using verify_signature_InlD [of self sd e] by blast
  from 1 2 3 4 5 show ?thesis
    by (intro conjI)
qed

text \<open>
  A verifier whose two names are fewer than the 19 extracted features, and one whose
  21 names are more: the scaler, which checks the length, accepts the adjusted vector.
\<close>

theorem dimension_mismatch_padded_witness:
  "match_feature_count [''stroke_count'', ''total_points''] [3, 4, 5] = [3, 4]
   \<and> match_feature_count [''stroke_count'', ''total_points'', ''width''] [3] = [3, 0, 0]
   \<and> (\<exists>a. verify_signature
          \<lparr>v_feature_names = [''stroke_count'', ''total_points''],
           v_scaler = checking_scaler 2, v_model = constant_score 1\<rparr>
          \<lparr>strokes = Some []\<rparr> = Inr (True, 100, a))
   \<and> (\<exists>a. verify_signature
          \<lparr>v_feature_names = trained_feature_names @ [''pressure'', ''tilt''],
           v_scaler = checking_scaler 21, v_model = constant_score 1\<rparr>
          \<lparr>strokes = Some []\<rparr> = Inr (True, 100, a))
   \<and> verify_signature
          \<lparr>v_feature_names = trained_feature_names,
           v_scaler = checking_scaler 19, v_model = constant_score 1\<rparr>
          \<lparr>strokes = Some [\<lparr>points = None, startTime = None, endTime = None\<rparr>]\<rparr>
        = Inl (KeyError ''points'')"
proof -
  let ?short = "\<lparr>v_feature_names = [''stroke_count'', ''total_points''],
           v_scaler = checking_scaler 2, v_model = constant_score 1\<rparr>"
  let ?long = "\<lparr>v_feature_names = trained_feature_names @ [''pressure'', ''tilt''],
           v_scaler = checking_scaler 21, v_model = constant_score 1\<rparr>"
  let ?exact = "\<lparr>v_feature_names = trained_feature_names,
           v_scaler = checking_scaler 19, v_model = constant_score 1\<rparr>"
  let ?bad = "\<lparr>strokes = Some [\<lparr>points = None, startTime = None, endTime = None\<rparr>]\<rparr>"
  have "get_strokes \<lparr>strokes = Some []\<rparr> = []"
    by (simp add: get_strokes_def)
  then obtain fs where fs: "process_signature \<lparr>strokes = Some []\<rparr> = Inr fs"
      "flatten_features fs = replicate 19 0"
    using process_signature_no_strokes by blast
  have a: "match_feature_count [''stroke_count'', ''total_points''] [3, 4, 5] = [3, 4]"
    using dimension_mismatch_padded [of "[''stroke_count'', ''total_points'']" "[3, 4, 5]"]
    by simp
  have b: "match_feature_count [''stroke_count'', ''total_points'', ''width''] [3] = [3, 0, 0]"
    using dimension_mismatch_padded [of "[''stroke_count'', ''total_points'', ''width'']" "[3]"]
    by (simp add: numeral_eq_Suc)
  have len: "length (match_feature_count (v_feature_names ?short) (flatten_features fs)) = 2"
      "length (match_feature_count (v_feature_names ?long) (flatten_features fs)) = 21"
    using dimension_mismatch_padded [of "v_feature_names ?short" "flatten_features fs"]
      dimension_mismatch_padded [of "v_feature_names ?long" "flatten_features fs"]
    by (simp_all add: trained_feature_names_def)
  have c: "\<exists>a. verify_signature ?short \<lparr>strokes = Some []\<rparr> = Inr (True, 100, a)"
    using dimension_mismatch_padded
      [of names flat "\<lparr>strokes = Some []\<rparr>" fs ?short
          "match_feature_count (v_feature_names ?short) (flatten_features fs)" 1 for names flat]
      fs(1) len(1)
    by (simp add: checking_scaler_def constant_score_def)
  have d: "\<exists>a. verify_signature ?long \<lparr>strokes = Some []\<rparr> = Inr (True, 100, a)"
    using dimension_mismatch_padded
      [of names flat "\<lparr>strokes = Some []\<rparr>" fs ?long
          "match_feature_count (v_feature_names ?long) (flatten_features fs)" 1 for names flat]
      fs(1) len(2)
    by (simp add: checking_scaler_def constant_score_def)
  have "total_points_of (get_strokes ?bad) = Inl (KeyError ''points'')"
    by (simp add: get_strokes_def)
  then have e: "verify_signature ?exact ?bad = Inl (KeyError ''points'')"
    by (simp add: verify_signature_def process_signature_def calculate_basic_stats_def)
  from a b c d e show ?thesis
    by (intro conjI)
qed

section \<open>The emitted analysis\<close>

lemma length_trained_feature_names: "length trained_feature_names = 19"
  by (simp add: trained_feature_names_def)

lemma distinct_trained_feature_names: "distinct trained_feature_names"
  by (simp add: trained_feature_names_def)

lemma match_feature_count_trained:
  "match_feature_count trained_feature_names (flatten_features fs) = flatten_features fs"
  by (simp add: match_feature_count_def flatten_features_slots length_feature_slots
      length_trained_feature_names)

text \<open>
  Claim C9, as the code has it. Every analysis that \<open>verify_signature\<close> emits has the
  verdict \<open>GENUINE\<close> when \<open>is_genuine\<close> holds and \<open>FORGERY DETECTED\<close> otherwise. Its
  \<open>features\<close> mapping has exactly the expected feature names as keys and, when the names
  are distinct, maps the i-th name to the i-th entry of the attempt's flattened vector
  after padding or truncation and before normalization: with the 19 trained names, to
  the i-th slot of the extracted features. No reference vector enters this function, so
  these are the attempt's own features and not diffs.
\<close>

theorem analysis_reports_raw_features:
  "verify_signature self sd = Inr (g, c, a) \<longrightarrow>
     a_is_genuine a = g
     \<and> a_verdict a = (if g then ''GENUINE'' else ''FORGERY DETECTED'')
     \<and> (\<exists>fs. process_signature sd = Inr fs
          \<and> dom (a_features a) = set (v_feature_names self)
          \<and> (distinct (v_feature_names self) \<longrightarrow>
               (\<forall>i < length (v_feature_names self).
                  a_features a (v_feature_names self ! i)
                    = Some (match_feature_count (v_feature_names self) (flatten_features fs) ! i)))
          \<and> (v_feature_names self = trained_feature_names \<longrightarrow>
               (\<forall>i < 19. a_features a (trained_feature_names ! i)
                    = Some (slot_value fs (feature_slots ! i)))))"
proof
  assume "verify_signature self sd = Inr (g, c, a)"
  then obtain fs X p where fs: "process_signature sd = Inr fs"
    and g: "g = (p > 1/2)"
    and a: "a = \<lparr>a_is_genuine = (p > 1/2), a_confidence = p * 100, a_threshold = 50,
           a_features = feature_report (v_feature_names self)
              (match_feature_count (v_feature_names self) (flatten_features fs)),
           a_verdict = (if p > 1/2 then ''GENUINE'' else ''FORGERY DETECTED'')\<rparr>"
    using verify_signature_InrD by blast
  let ?names = "v_feature_names self"
  let ?flat = "match_feature_count ?names (flatten_features fs)"
  have len: "length ?flat = length ?names"
    by (rule length_match_feature_count)
  have feats: "a_features a = feature_report ?names ?flat"
    by (simp add: a)
  have d: "dom (a_features a) = set ?names"
    unfolding feats by (rule feature_report_dom [OF len])
  have n: "distinct ?names \<longrightarrow>
      (\<forall>i < length ?names. a_features a (?names ! i) = Some (?flat ! i))"
    unfolding feats using feature_report_nth [OF _ len] by blast
  have t: "?names = trained_feature_names \<longrightarrow>
      (\<forall>i < 19. a_features a (trained_feature_names ! i) = Some (slot_value fs (feature_slots ! i)))"
  proof (intro impI allI)
    fix i :: nat
    assume tr: "?names = trained_feature_names" and i: "i < 19"
    then have "a_features a (trained_feature_names ! i) = Some (flatten_features fs ! i)"
      using n distinct_trained_feature_names
      by (simp add: match_feature_count_trained length_trained_feature_names)
    then show "a_features a (trained_feature_names ! i) = Some (slot_value fs (feature_slots ! i))"
      using i by (simp add: flatten_features_slots length_feature_slots)
  qed
  from g a fs d n t show "a_is_genuine a = g
     \<and> a_verdict a = (if g then ''GENUINE'' else ''FORGERY DETECTED'')
     \<and> (\<exists>fs. process_signature sd = Inr fs
          \<and> dom (a_features a) = set (v_feature_names self)
          \<and> (distinct (v_feature_names self) \<longrightarrow>
               (\<forall>i < length (v_feature_names self).
                  a_features a (v_feature_names self ! i)
                    = Some (match_feature_count (v_feature_names self) (flatten_features fs) ! i)))
          \<and> (v_feature_names self = trained_feature_names \<longrightarrow>
               (\<forall>i < 19. a_features a (trained_feature_names ! i)
                    = Some (slot_value fs (feature_slots ! i)))))"
    by auto
qed

text \<open>
  The verdict of a rejected attempt is the string \<open>FORGERY DETECTED\<close>, which is neither
  \<open>GENUINE\<close> nor \<open>FORGERY\<close>: a signature without strokes, scored 0 by the model.
\<close>

theorem verdict_enum_counterexample:
  "verify_signature
     \<lparr>v_feature_names = trained_feature_names,
      v_scaler = identity_scaler, v_model = constant_score 0\<rparr>
     \<lparr>strokes = Some []\<rparr>
   = Inr (False, 0,
          \<lparr>a_is_genuine = False, a_confidence = 0, a_threshold = 50,
           a_features = feature_report trained_feature_names (replicate 19 0),
           a_verdict = ''FORGERY DETECTED''\<rparr>)
   \<and> ''FORGERY DETECTED'' \<noteq> ''GENUINE''
   \<and> ''FORGERY DETECTED'' \<noteq> ''FORGERY''"
proof -
  let ?v = "\<lparr>v_feature_names = trained_feature_names,
      v_scaler = identity_scaler, v_model = constant_score 0\<rparr>"
  have m: "match_feature_count trained_feature_names (replicate 19 0) = replicate 19 0"
    by (simp add: match_feature_count_def length_trained_feature_names)
  have "verify_signature ?v \<lparr>strokes = Some []\<rparr>
   = Inr (False, 0,
          \<lparr>a_is_genuine = False, a_confidence = 0, a_threshold = 50,
           a_features = feature_report trained_feature_names (replicate 19 0),
           a_verdict = ''FORGERY DETECTED''\<rparr>)"
    using verify_signature_no_strokes [of ?v "replicate 19 0" 0]
    by (simp add: m identity_scaler_def constant_score_def)
  then show ?thesis
    by simp
qed

text \<open>
  The same run through the amended statement: the verdict and the first reported
  feature, the stroke count 0 of the attempt.
\<close>

theorem analysis_reports_raw_features_witness:
  "\<exists>a. verify_signature
     \<lparr>v_feature_names = trained_feature_names,
      v_scaler = identity_scaler, v_model = constant_score 0\<rparr>
     \<lparr>strokes = Some []\<rparr> = Inr (False, 0, a)
     \<and> a_verdict a = ''FORGERY DETECTED''
     \<and> dom (a_features a) = set trained_feature_names
     \<and> a_features a ''stroke_count'' = Some 0"
proof -
  let ?v = "\<lparr>v_feature_names = trained_feature_names,
      v_scaler = identity_scaler, v_model = constant_score 0\<rparr>"
  have m: "match_feature_count trained_feature_names (replicate 19 0) = replicate 19 0"
    by (simp add: match_feature_count_def length_trained_feature_names)
  obtain a where run: "verify_signature ?v \<lparr>strokes = Some []\<rparr> = Inr (False, 0, a)"
    using verify_signature_no_strokes [of ?v "replicate 19 0" 0]
    by (simp add: m identity_scaler_def constant_score_def)
  have "get_strokes \<lparr>strokes = Some []\<rparr> = []"
    by (simp add: get_strokes_def)
  then obtain fs0 where fs0: "process_signature \<lparr>strokes = Some []\<rparr> = Inr fs0"
      "flatten_features fs0 = replicate 19 0"
    using process_signature_no_strokes by blast
  from analysis_reports_raw_features [of ?v "\<lparr>strokes = Some []\<rparr>" False 0 a] run
  obtain fs where fs: "process_signature \<lparr>strokes = Some []\<rparr> = Inr fs"
    and v: "a_verdict a = ''FORGERY DETECTED''"
    and d: "dom (a_features a) = set trained_feature_names"
    and s: "\<forall>i < 19. a_features a (trained_feature_names ! i) = Some (slot_value fs (feature_slots ! i))"
    by auto
  have "flatten_features fs ! 0 = slot_value fs (feature_slots ! 0)"
    unfolding flatten_features_slots by (rule nth_map) (simp add: length_feature_slots)
  moreover from fs fs0 have "flatten_features fs = replicate 19 0"
    by simp
  ultimately have "slot_value fs (feature_slots ! 0) = 0"
    by simp
  moreover have "trained_feature_names ! 0 = ''stroke_count''"
    by (simp add: trained_feature_names_def)
  ultimately have "a_features a ''stroke_count'' = Some 0"
    using s by force
  with run v d show ?thesis
    by blast
qed

section \<open>Prediction from stored and current metrics\<close>

lemma diff_features_map_aux:
  "fold (\<lambda>feature_name features.
             features @
               [diff_feature feature_name
                  (dict_get stored_metrics feature_name 0)
                  (dict_get current_metrics feature_name 0)])
        names acc
   = acc @ map (\<lambda>n. diff_feature n (dict_get stored_metrics n 0) (dict_get current_metrics n 0)) names"
  by (induction names arbitrary: acc) simp_all

lemma diff_features_map:
  "diff_features names stored_metrics current_metrics
     = map (\<lambda>n. diff_feature n (dict_get stored_metrics n 0) (dict_get current_metrics n 0)) names"
  by (simp add: diff_features_def diff_features_map_aux)

lemma diff_feature_cases:
  "diff_feature name r a =
     (if name = ''stroke_count'' \<or> name = ''total_points'' then \<bar>a - r\<bar>
      else if r \<noteq> 0 then \<bar>a - r\<bar> / \<bar>r\<bar>
      else if a \<noteq> 0 then 1
      else 0)"
  by (simp add: diff_feature_def Let_def)

lemma diff_feature_spec: "0 \<le> r \<Longrightarrow> diff_feature name r a = spec_diff_feature name r a"
  by (simp add: diff_feature_cases spec_diff_feature_def)

lemma predict_body_Inr:
  assumes "stored_features data = Some sm" and "current_features data = Some cm"
    and "cl_transform c (diff_features (cl_feature_names c) sm cm) = Inr X"
    and "cl_predict c X = Inr label"
    and "cl_predict_proba c X = Inr probability"
    and "2 \<le> length probability"
  shows "predict_body (Some c) data =
     Inr \<lparr>r_prediction = label,
          r_confidence_score =
            (if label = 1 then probability ! 1 * 100 else (1 - probability ! 0) * 100),
          r_is_genuine = (label = 1),
          r_prob_forgery = probability ! 0,
          r_prob_genuine = probability ! 1\<rparr>"
proof -
  from assms(6) have "proba_at probability 0 = Inr (probability ! 0)"
    and "proba_at probability 1 = Inr (probability ! 1)"
    by (auto simp: proba_at_def)
  with assms(1-5) show ?thesis
    by (simp add: predict_body_def Let_def)
qed

lemma predict_body_InrD:
  assumes "predict_body loaded data = Inr body"
  shows "r_is_genuine body = (r_prediction body = 1)
     \<and> r_confidence_score body =
         (if r_prediction body = 1 then r_prob_genuine body * 100
          else (1 - r_prob_forgery body) * 100)"
proof -
  from assms obtain sm where sm: "stored_features data = Some sm"
    by (cases "stored_features data") (simp_all add: predict_body_def)
  from assms sm obtain cm where cm: "current_features data = Some cm"
    by (cases "current_features data") (simp_all add: predict_body_def)
  from assms sm cm obtain c where c: "loaded = Some c"
    by (cases loaded) (simp_all add: predict_body_def)
  from assms sm cm c obtain X
    where X: "cl_transform c (diff_features (cl_feature_names c) sm cm) = Inr X"
    by (cases "cl_transform c (diff_features (cl_feature_names c) sm cm)")
       (simp_all add: predict_body_def Let_def)
  from assms sm cm c X obtain label where l: "cl_predict c X = Inr label"
    by (cases "cl_predict c X") (simp_all add: predict_body_def Let_def)
  from assms sm cm c X l obtain probability where p: "cl_predict_proba c X = Inr probability"
    by (cases "cl_predict_proba c X") (simp_all add: predict_body_def Let_def)
  have len: "2 \<le> length probability"
  proof (rule ccontr)
    assume "\<not> 2 \<le> length probability"
    then have "proba_at probability 1 = Inl IndexError"
      by (simp add: proba_at_def)
    with assms sm cm c X l p show False
      by (simp add: predict_body_def Let_def split: sum.splits if_splits)
  qed
  from predict_body_Inr [OF sm cm X l p len] assms c show ?thesis
    by auto
qed

lemma predict_Success:
  assumes "stored_features data = Some sm" and "current_features data = Some cm"
    and "cl_transform c (diff_features (cl_feature_names c) sm cm) = Inr X"
    and "cl_predict c X = Inr label"
    and "cl_predict_proba c X = Inr [p0, p1]"
  shows "predict (Some c) data =
     Success \<lparr>r_prediction = label,
          r_confidence_score = (if label = 1 then p1 * 100 else (1 - p0) * 100),
          r_is_genuine = (label = 1),
          r_prob_forgery = p0,
          r_prob_genuine = p1\<rparr>"
  using predict_body_Inr [OF assms] by (simp add: predict_def)

lemma predict_SuccessD:
  assumes "predict loaded data = Success body"
  shows "r_is_genuine body = (r_prediction body = 1)"
    and "r_confidence_score body =
         (if r_prediction body = 1 then r_prob_genuine body * 100
          else (1 - r_prob_forgery body) * 100)"
proof -
  from assms have "predict_body loaded data = Inr body"
    by (cases "predict_body loaded data") (simp_all add: predict_def)
  from predict_body_InrD [OF this]
  show "r_is_genuine body = (r_prediction body = 1)"
    and "r_confidence_score body =
         (if r_prediction body = 1 then r_prob_genuine body * 100
          else (1 - r_prob_forgery body) * 100)"
    by simp_all
qed

section \<open>Confidence\<close>



section \<open>Diff features\<close>

text \<open>
  Claim C2, as the code has it. The diff vector has one entry per feature name, in
  order. The entry is the absolute difference \<open>|attempt - reference|\<close> for
  \<open>stroke_count\<close> and \<open>total_points\<close>; for every other name it is
  \<open>|attempt - reference| / |reference|\<close> when the reference is not 0, else 1 when the
  attempt is not 0, else 0; a name missing from a metrics dictionary counts as 0. When the
  reference is not negative the entry is the value of the specification's formula.
\<close>

theorem diff_feature_relative_to_magnitude:
  "length (diff_features names sm cm) = length names
   \<and> (\<forall>i < length names.
        diff_features names sm cm ! i =
          (let name = names ! i;
               reference = dict_get sm name 0;
               attempt = dict_get cm name 0
           in if name = ''stroke_count'' \<or> name = ''total_points'' then \<bar>attempt - reference\<bar>
              else if reference \<noteq> 0 then \<bar>attempt - reference\<bar> / \<bar>reference\<bar>
              else if attempt \<noteq> 0 then 1
              else 0))
   \<and> (\<forall>i < length names.
        0 \<le> dict_get sm (names ! i) 0 \<longrightarrow>
        diff_features names sm cm ! i =
          spec_diff_feature (names ! i) (dict_get sm (names ! i) 0) (dict_get cm (names ! i) 0))"
proof (intro conjI allI impI)
  show "length (diff_features names sm cm) = length names"
    by (simp add: diff_features_map)
next
  fix i assume "i < length names"
  then have "diff_features names sm cm ! i
      = diff_feature (names ! i) (dict_get sm (names ! i) 0) (dict_get cm (names ! i) 0)"
    by (simp add: diff_features_map)
  then show "diff_features names sm cm ! i =
          (let name = names ! i;
               reference = dict_get sm name 0;
               attempt = dict_get cm name 0
           in if name = ''stroke_count'' \<or> name = ''total_points'' then \<bar>attempt - reference\<bar>
              else if reference \<noteq> 0 then \<bar>attempt - reference\<bar> / \<bar>reference\<bar>
              else if attempt \<noteq> 0 then 1
              else 0)"
    unfolding Let_def by (simp only: diff_feature_cases)
next
  fix i assume "i < length names" and "0 \<le> dict_get sm (names ! i) 0"
  then show "diff_features names sm cm ! i =
          spec_diff_feature (names ! i) (dict_get sm (names ! i) 0) (dict_get cm (names ! i) 0)"
    by (simp add: diff_features_map diff_feature_spec)
qed

text \<open>
  A reference \<open>center_x\<close> of -2 and an attempt of 2: the code's diff feature is 2, the
  specification's formula gives -2.
\<close>

theorem relative_diff_negative_reference_counterexample:
  "diff_features [''center_x''] [''center_x'' \<mapsto> - 2] [''center_x'' \<mapsto> 2] = [2]
   \<and> spec_diff_feature ''center_x'' (- 2) 2 = - 2"
  by (simp add: diff_features_map diff_feature_cases spec_diff_feature_def dict_get_def)

text \<open>
  Over the 19 trained names: a stroke count going from 2 to 5, a width from 100 to 150
  and a \<open>center_x\<close> from -2 to 2.
\<close>

theorem diff_feature_relative_to_magnitude_witness:
  "length (diff_features trained_feature_names
      [''stroke_count'' \<mapsto> 2, ''width'' \<mapsto> 100, ''center_x'' \<mapsto> - 2]
      [''stroke_count'' \<mapsto> 5, ''width'' \<mapsto> 150, ''center_x'' \<mapsto> 2]) = 19
   \<and> diff_features trained_feature_names
      [''stroke_count'' \<mapsto> 2, ''width'' \<mapsto> 100, ''center_x'' \<mapsto> - 2]
      [''stroke_count'' \<mapsto> 5, ''width'' \<mapsto> 150, ''center_x'' \<mapsto> 2] ! 0 = 3
   \<and> diff_features trained_feature_names
      [''stroke_count'' \<mapsto> 2, ''width'' \<mapsto> 100, ''center_x'' \<mapsto> - 2]
      [''stroke_count'' \<mapsto> 5, ''width'' \<mapsto> 150, ''center_x'' \<mapsto> 2] ! 8 = 1 / 2
   \<and> diff_features trained_feature_names
      [''stroke_count'' \<mapsto> 2, ''width'' \<mapsto> 100, ''center_x'' \<mapsto> - 2]
      [''stroke_count'' \<mapsto> 5, ''width'' \<mapsto> 150, ''center_x'' \<mapsto> 2] ! 12 = 2
   \<and> spec_diff_feature ''width'' 100 150 = 1 / 2"
proof -
  let ?sm = "[''stroke_count'' \<mapsto> 2, ''width'' \<mapsto> 100, ''center_x'' \<mapsto> - 2 :: real]"
  let ?cm = "[''stroke_count'' \<mapsto> 5, ''width'' \<mapsto> 150, ''center_x'' \<mapsto> 2 :: real]"
  note t = diff_feature_relative_to_magnitude [of trained_feature_names ?sm ?cm]
  note entry = t [THEN conjunct2, THEN conjunct1, rule_format]
  note spec_entry = t [THEN conjunct2, THEN conjunct2, rule_format]
  have len: "length trained_feature_names = 19"
    by (rule length_trained_feature_names)
  have n: "trained_feature_names ! 0 = ''stroke_count''" "trained_feature_names ! 8 = ''width''"
      "trained_feature_names ! 12 = ''center_x''"
    by (simp_all add: trained_feature_names_def)
  have l: "length (diff_features trained_feature_names ?sm ?cm) = 19"
    using t len by simp
  have 0: "diff_features trained_feature_names ?sm ?cm ! 0 = 3"
    using entry [of 0] len by (simp add: n dict_get_def)
  have s: "spec_diff_feature ''width'' 100 150 = 1 / 2"
    by (simp add: spec_diff_feature_def)
  have 8: "diff_features trained_feature_names ?sm ?cm ! 8 = 1 / 2"
    using spec_entry [of 8] len s by (simp add: n dict_get_def)
  have 12: "diff_features trained_feature_names ?sm ?cm ! 12 = 2"
    using entry [of 12] len by (simp add: n dict_get_def)
  from l 0 8 12 s show ?thesis
    by (intro conjI)
qed

section \<open>The verdict\<close>

text \<open>
  Claim C3. The verdict of \<open>predict\<close> is the classifier's label: \<open>is_genuine\<close> holds
  exactly when the label is 1, whatever the probabilities are, so the engine applies
  no threshold of its own; and for a classifier whose probabilities sum to 1 and whose
  label is 1 exactly when the genuine-class probability exceeds 0.5, this is the same
  as the confidence exceeding 50. On the path of the stored network, whose only output
  is the genuine-class score, \<open>is_genuine\<close> holds exactly when that score exceeds 0.5,
  that is, when the confidence exceeds the reported threshold 50.
\<close>

theorem verdict_is_classifier_label:
  "(stored_features data = Some sm \<and> current_features data = Some cm
      \<and> cl_transform c (diff_features (cl_feature_names c) sm cm) = Inr X
      \<and> cl_predict c X = Inr label \<and> cl_predict_proba c X = Inr [p0, p1] \<longrightarrow>
      (\<exists>body. predict (Some c) data = Success body
         \<and> r_prediction body = label
         \<and> r_is_genuine body = (label = 1)
         \<and> (p0 + p1 = 1 \<and> (label = 1 \<longleftrightarrow> p1 > 1/2) \<longrightarrow>
              (r_is_genuine body \<longleftrightarrow> r_confidence_score body > 50))))
   \<and> (predict loaded data = Success body' \<longrightarrow>
        r_is_genuine body' = (r_prediction body' = 1))
   \<and> (verify_signature self sd = Inr (g, conf, a) \<longrightarrow>
        a_is_genuine a = g \<and> a_confidence a = conf \<and> a_threshold a = 50
        \<and> (g \<longleftrightarrow> conf > a_threshold a)
        \<and> (\<exists>Y p. v_model self Y = Inr p \<and> conf = p * 100 \<and> (g \<longleftrightarrow> p > 1/2)))"
proof -
  have part1: "stored_features data = Some sm \<and> current_features data = Some cm
      \<and> cl_transform c (diff_features (cl_feature_names c) sm cm) = Inr X
      \<and> cl_predict c X = Inr label \<and> cl_predict_proba c X = Inr [p0, p1] \<longrightarrow>
      (\<exists>body. predict (Some c) data = Success body
         \<and> r_prediction body = label
         \<and> r_is_genuine body = (label = 1)
         \<and> (p0 + p1 = 1 \<and> (label = 1 \<longleftrightarrow> p1 > 1/2) \<longrightarrow>
              (r_is_genuine body \<longleftrightarrow> r_confidence_score body > 50)))"
  proof
    assume "stored_features data = Some sm \<and> current_features data = Some cm
      \<and> cl_transform c (diff_features (cl_feature_names c) sm cm) = Inr X
      \<and> cl_predict c X = Inr label \<and> cl_predict_proba c X = Inr [p0, p1]"
    then have run: "predict (Some c) data =
       Success \<lparr>r_prediction = label,
          r_confidence_score = (if label = 1 then p1 * 100 else (1 - p0) * 100),
          r_is_genuine = (label = 1),
          r_prob_forgery = p0,
          r_prob_genuine = p1\<rparr>"
      using predict_Success [of data sm cm c X label p0 p1] by blast
    have "(label = 1) \<longleftrightarrow> (if label = 1 then p1 * 100 else (1 - p0) * 100) > 50"
      if "p0 + p1 = 1 \<and> (label = 1 \<longleftrightarrow> p1 > 1/2)"
    proof (cases "label = 1")
      case True
      with that show ?thesis by simp
    next
      case False
      from that have "1 - p0 = p1"
        by simp
      with that False show ?thesis by simp
    qed
    with run show "\<exists>body. predict (Some c) data = Success body
         \<and> r_prediction body = label
         \<and> r_is_genuine body = (label = 1)
         \<and> (p0 + p1 = 1 \<and> (label = 1 \<longleftrightarrow> p1 > 1/2) \<longrightarrow>
              (r_is_genuine body \<longleftrightarrow> r_confidence_score body > 50))"
      by simp
  qed
  have part2: "predict loaded data = Success body' \<longrightarrow>
        r_is_genuine body' = (r_prediction body' = 1)"
    using predict_SuccessD(1) [of loaded data body'] by blast
  have part3: "verify_signature self sd = Inr (g, conf, a) \<longrightarrow>
        a_is_genuine a = g \<and> a_confidence a = conf \<and> a_threshold a = 50
        \<and> (g \<longleftrightarrow> conf > a_threshold a)
        \<and> (\<exists>Y p. v_model self Y = Inr p \<and> conf = p * 100 \<and> (g \<longleftrightarrow> p > 1/2))"
  proof
    assume "verify_signature self sd = Inr (g, conf, a)"
    then obtain fs Y p where "v_model self Y = Inr p" and "g = (p > 1/2)" and "conf = p * 100"
      and "a = \<lparr>a_is_genuine = (p > 1/2), a_confidence = p * 100, a_threshold = 50,
           a_features = feature_report (v_feature_names self)
              (match_feature_count (v_feature_names self) (flatten_features fs)),
           a_verdict = (if p > 1/2 then ''GENUINE'' else ''FORGERY DETECTED'')\<rparr>"
      using verify_signature_InrD by blast
    then show "a_is_genuine a = g \<and> a_confidence a = conf \<and> a_threshold a = 50
        \<and> (g \<longleftrightarrow> conf > a_threshold a)
        \<and> (\<exists>Y p. v_model self Y = Inr p \<and> conf = p * 100 \<and> (g \<longleftrightarrow> p > 1/2))"
      by auto
  qed
  from part1 part2 part3 show ?thesis
    by (intro conjI)
qed

text \<open>
  A classifier that answers label 1 with \<open>[0.12, 0.88]\<close>: genuine, at confidence 88.
  One that answers label 1 with \<open>[0.6, 0.4]\<close>: still genuine, the label decides. The
  stored network scoring 0.9: genuine, at confidence 90 over the threshold 50.
\<close>

theorem verdict_is_classifier_label_witness:
  "(\<exists>body. predict
       (Some \<lparr>cl_feature_names = trained_feature_names, cl_transform = identity_scaler,
              cl_predict = constant_label 1, cl_predict_proba = constant_proba [0.12, 0.88]\<rparr>)
       \<lparr>stored_features = Some Map.empty, current_features = Some Map.empty\<rparr> = Success body
      \<and> r_is_genuine body \<and> r_confidence_score body > 50)
   \<and> (\<exists>body. predict
       (Some \<lparr>cl_feature_names = trained_feature_names, cl_transform = identity_scaler,
              cl_predict = constant_label 1, cl_predict_proba = constant_proba [0.6, 0.4]\<rparr>)
       \<lparr>stored_features = Some Map.empty, current_features = Some Map.empty\<rparr> = Success body
      \<and> r_is_genuine body)
   \<and> (\<exists>a. verify_signature
       \<lparr>v_feature_names = trained_feature_names,
        v_scaler = identity_scaler, v_model = constant_score 0.9\<rparr>
       \<lparr>strokes = Some []\<rparr> = Inr (True, 90, a)
      \<and> a_is_genuine a \<and> a_threshold a = 50)"
proof -
  let ?data = "\<lparr>stored_features = Some Map.empty, current_features = Some Map.empty\<rparr>"
  let ?X = "diff_features trained_feature_names Map.empty Map.empty"
  let ?k1 = "\<lparr>cl_feature_names = trained_feature_names, cl_transform = identity_scaler,
              cl_predict = constant_label 1, cl_predict_proba = constant_proba [0.12, 0.88]\<rparr>"
  let ?k2 = "\<lparr>cl_feature_names = trained_feature_names, cl_transform = identity_scaler,
              cl_predict = constant_label 1, cl_predict_proba = constant_proba [0.6, 0.4]\<rparr>"
  let ?v = "\<lparr>v_feature_names = trained_feature_names,
        v_scaler = identity_scaler, v_model = constant_score 0.9\<rparr>"
  have h1: "stored_features ?data = Some Map.empty \<and> current_features ?data = Some Map.empty
      \<and> cl_transform ?k1 (diff_features (cl_feature_names ?k1) Map.empty Map.empty) = Inr ?X
      \<and> cl_predict ?k1 ?X = Inr 1 \<and> cl_predict_proba ?k1 ?X = Inr [0.12, 0.88]"
    by (simp add: identity_scaler_def constant_label_def constant_proba_def)
  have c1: "(0.12::real) + 0.88 = 1 \<and> ((1::int) = 1 \<longleftrightarrow> (0.88::real) > 1/2)"
    by simp
  from c1 verdict_is_classifier_label
    [of ?data Map.empty Map.empty ?k1 ?X 1 "0.12" "0.88", THEN conjunct1, rule_format, OF h1]
  have 1: "\<exists>body. predict (Some ?k1) ?data = Success body
      \<and> r_is_genuine body \<and> r_confidence_score body > 50"
    by auto
  have h2: "stored_features ?data = Some Map.empty \<and> current_features ?data = Some Map.empty
      \<and> cl_transform ?k2 (diff_features (cl_feature_names ?k2) Map.empty Map.empty) = Inr ?X
      \<and> cl_predict ?k2 ?X = Inr 1 \<and> cl_predict_proba ?k2 ?X = Inr [0.6, 0.4]"
    by (simp add: identity_scaler_def constant_label_def constant_proba_def)
  from verdict_is_classifier_label
    [of ?data Map.empty Map.empty ?k2 ?X 1 "0.6" "0.4", THEN conjunct1, rule_format, OF h2]
  have 2: "\<exists>body. predict (Some ?k2) ?data = Success body \<and> r_is_genuine body"
    by auto
  have m: "match_feature_count trained_feature_names (replicate 19 0) = replicate 19 0"
    by (simp add: match_feature_count_def length_trained_feature_names)
  obtain a where run: "verify_signature ?v \<lparr>strokes = Some []\<rparr> = Inr (True, 90, a)"
    using verify_signature_no_strokes [of ?v "replicate 19 0" "0.9"]
    by (simp add: m identity_scaler_def constant_score_def)
  from verdict_is_classifier_label
    [where self = ?v and sd = "\<lparr>strokes = Some []\<rparr>" and g = True and conf = 90 and a = a,
     THEN conjunct2, THEN conjunct2, rule_format, OF run]
  have "a_is_genuine a \<and> a_threshold a = 50"
    by simp
  with run have 3: "\<exists>a. verify_signature ?v \<lparr>strokes = Some []\<rparr> = Inr (True, 90, a)
      \<and> a_is_genuine a \<and> a_threshold a = 50"
    by blast
  from 1 2 3 show ?thesis
    by (intro conjI)
qed

end
